theory Spec2Isabelle
  imports Main "HOL-Library.Word"
begin

section \<open>Daily Task Tick: the component of src/App.js\<close>

text \<open>
  The repository is one React component, \<open>DailyTaskTick\<close>. Its state is the five
  \<open>useState\<close> cells and the \<open>useRef\<close> holding the session date; its operations are
  the event handlers; its persistence is three \<open>localStorage\<close> entries written by
  three effects. Each handler is embedded as a function from the state before the event
  to the state after it. What a handler reads from outside the component (the clock,
  the answer of \<open>window.confirm\<close>) is a parameter.
\<close>

subsection \<open>Strings\<close>

text \<open>
  A JavaScript string is a sequence of 16-bit code units. \<open>utf16\<close> writes an ASCII
  literal as such a sequence.
\<close>

type_synonym jsstring = "16 word list"

definition utf16 :: "string \<Rightarrow> jsstring" where
  "utf16 cs = map (\<lambda>c. of_nat (of_char c)) cs"

text \<open>
  \<open>String.prototype.trim\<close> removes the code units of the ECMAScript productions
  WhiteSpace and LineTerminator from both ends: TAB, LF, VT, FF, CR, SP, NBSP, U+1680,
  U+2000 to U+200A, U+2028, U+2029, U+202F, U+205F, U+3000 and U+FEFF.
\<close>

definition isWhiteSpace :: "16 word \<Rightarrow> bool" where
  "isWhiteSpace c \<longleftrightarrow>
     c \<in> set [0x0009, 0x000A, 0x000B, 0x000C, 0x000D, 0x0020, 0x00A0, 0x1680,
              0x2000, 0x2001, 0x2002, 0x2003, 0x2004, 0x2005, 0x2006, 0x2007,
              0x2008, 0x2009, 0x200A, 0x2028, 0x2029, 0x202F, 0x205F, 0x3000, 0xFEFF]"

definition trim :: "jsstring \<Rightarrow> jsstring" where
  "trim s = rev (dropWhile isWhiteSpace (rev (dropWhile isWhiteSpace s)))"

text \<open>
  \<open>Number.prototype.toString\<close> on an integer in the range of \<open>Date.now()\<close>: the
  decimal digits, with a minus sign for a negative number.
\<close>

definition digit :: "nat \<Rightarrow> 16 word" where
  "digit d = of_nat (48 + d)"

fun digits :: "nat \<Rightarrow> jsstring" where
  "digits n = (if n < 10 then [digit n] else digits (n div 10) @ [digit (n mod 10)])"

declare digits.simps [simp del]

definition toString :: "int \<Rightarrow> jsstring" where
  "toString i = (if i < 0 then 0x002D # digits (nat (- i)) else digits (nat i))"

subsection \<open>Data model (lines 12 to 30)\<close>

record Task =
  id_task :: jsstring
  title :: jsstring
  createdAt :: jsstring
  archived :: bool

record CompletionRecord =
  taskId :: jsstring
  date :: jsstring

text \<open>
  The component's state: the \<open>useState\<close> cells in the order of lines 25 to 29 and the
  ref of line 30. \<open>editingTaskId\<close> is \<open>null\<close> or a task id.
\<close>

record state =
  tasks :: "Task list"
  completions :: "CompletionRecord list"
  newTaskTitle :: jsstring
  editingTaskId :: "jsstring option"
  editingTaskTitle :: jsstring
  currentLocalISODate :: jsstring

text \<open>The state of the first render, for the session date the Date Oracle returned.\<close>

definition initialState :: "jsstring \<Rightarrow> state" where
  "initialState today =
     \<lparr>tasks = [], completions = [], newTaskTitle = [], editingTaskId = None,
      editingTaskTitle = [], currentLocalISODate = today\<rparr>"

subsection \<open>Handlers (lines 62 to 132)\<close>

text \<open>
  \<open>handleAddTask\<close>, lines 62 to 74. \<open>now\<close> is what \<open>Date.now()\<close> returns and \<open>stamp\<close>
  what \<open>new Date().toISOString()\<close> returns.
\<close>

definition handleAddTask :: "int \<Rightarrow> jsstring \<Rightarrow> state \<Rightarrow> state" where
  "handleAddTask now stamp s =
     (if trim (newTaskTitle s) = [] then s
      else
        let newTask = \<lparr>id_task = toString now, title = trim (newTaskTitle s),
                       createdAt = stamp, archived = False\<rparr>
        in s\<lparr>tasks := tasks s @ [newTask], newTaskTitle := []\<rparr>)"

text \<open>The test of lines 77 to 79 and 179 to 181.\<close>

definition isCompleted :: "jsstring \<Rightarrow> state \<Rightarrow> bool" where
  "isCompleted tid s =
     list_ex (\<lambda>c. taskId c = tid \<and> date c = currentLocalISODate s) (completions s)"

text \<open>\<open>handleToggleCompletion\<close>, lines 76 to 91.\<close>

definition handleToggleCompletion :: "jsstring \<Rightarrow> state \<Rightarrow> state" where
  "handleToggleCompletion tid s =
     (if isCompleted tid s
      then s\<lparr>completions :=
               filter (\<lambda>c. \<not> (taskId c = tid \<and> date c = currentLocalISODate s))
                 (completions s)\<rparr>
      else s\<lparr>completions :=
               completions s @ [\<lparr>taskId = tid, date = currentLocalISODate s\<rparr>]\<rparr>)"

text \<open>
  \<open>handleDeleteTask\<close>, lines 93 to 98. \<open>confirm\<close> is the answer of
  \<open>window.confirm\<close>.
\<close>

definition handleDeleteTask :: "bool \<Rightarrow> jsstring \<Rightarrow> state \<Rightarrow> state" where
  "handleDeleteTask confirm tid s =
     (if confirm
      then s\<lparr>tasks := filter (\<lambda>task. id_task task \<noteq> tid) (tasks s),
             completions := filter (\<lambda>c. taskId c \<noteq> tid) (completions s)\<rparr>
      else s)"

text \<open>\<open>handleEditTask\<close>, lines 100 to 103.\<close>

definition handleEditTask :: "jsstring \<Rightarrow> jsstring \<Rightarrow> state \<Rightarrow> state" where
  "handleEditTask tid currentTitle s =
     s\<lparr>editingTaskId := Some tid, editingTaskTitle := currentTitle\<rparr>"

text \<open>\<open>handleSaveEdit\<close>, lines 105 to 114.\<close>

definition handleSaveEdit :: "jsstring \<Rightarrow> state \<Rightarrow> state" where
  "handleSaveEdit tid s =
     (if trim (editingTaskTitle s) = [] then s
      else s\<lparr>tasks :=
               map (\<lambda>task. if id_task task = tid
                            then task\<lparr>title := trim (editingTaskTitle s)\<rparr> else task)
                 (tasks s),
             editingTaskId := None, editingTaskTitle := []\<rparr>)"

text \<open>\<open>handleCancelEdit\<close>, lines 116 to 119.\<close>

definition handleCancelEdit :: "state \<Rightarrow> state" where
  "handleCancelEdit s = s\<lparr>editingTaskId := None, editingTaskTitle := []\<rparr>"

text \<open>\<open>handleResetTodayCompletions\<close>, lines 121 to 127.\<close>

definition handleResetTodayCompletions :: "bool \<Rightarrow> state \<Rightarrow> state" where
  "handleResetTodayCompletions confirm s =
     (if confirm
      then s\<lparr>completions :=
               filter (\<lambda>c. date c \<noteq> currentLocalISODate s) (completions s)\<rparr>
      else s)"

text \<open>The derived values of lines 129 to 132.\<close>

definition completedTodayCount :: "state \<Rightarrow> nat" where
  "completedTodayCount s =
     length (filter (\<lambda>c. date c = currentLocalISODate s) (completions s))"

definition totalTasksCount :: "state \<Rightarrow> nat" where
  "totalTasksCount s = length (tasks s)"

subsection \<open>Persistence (lines 33 to 60)\<close>

text \<open>
  The three \<open>localStorage\<close> entries. \<open>getItem\<close> returns \<open>null\<close> (\<open>None\<close>) for an
  entry that was never written. The two list entries hold \<open>JSON.stringify\<close> of an
  array, which \<open>JSON.parse\<close> reads back; the model keeps the array itself. Such a
  serialisation is never the empty string, so a present entry is truthy.
\<close>

record localStorage =
  dailyTaskTick_tasks :: "Task list option"
  dailyTaskTick_completions :: "CompletionRecord list option"
  dailyTaskTick_lastCompletionDate :: "jsstring option"

definition emptyStorage :: localStorage where
  "emptyStorage =
     \<lparr>dailyTaskTick_tasks = None, dailyTaskTick_completions = None,
      dailyTaskTick_lastCompletionDate = None\<rparr>"

text \<open>
  The effect of lines 33 to 51, run once after the first render: the state updates it
  queues and the entries it writes.
\<close>

definition loadEffect :: "state \<Rightarrow> localStorage \<Rightarrow> state \<times> localStorage" where
  "loadEffect s ls =
     (let storedTasks = dailyTaskTick_tasks ls;
          s1 = (case storedTasks of Some ts \<Rightarrow> s\<lparr>tasks := ts\<rparr> | None \<Rightarrow> s);
          storedCompletions = dailyTaskTick_completions ls;
          lastCompletionDate = dailyTaskTick_lastCompletionDate ls;
          reset = (s1\<lparr>completions := []\<rparr>, ls\<lparr>dailyTaskTick_completions := Some []\<rparr>);
          (s2, ls2) =
            (if lastCompletionDate = Some (currentLocalISODate s)
             then (case storedCompletions of
                     Some cs \<Rightarrow> (s1\<lparr>completions := cs\<rparr>, ls)
                   | None \<Rightarrow> reset)
             else reset)
      in (s2, ls2\<lparr>dailyTaskTick_lastCompletionDate := Some (currentLocalISODate s)\<rparr>))"

text \<open>The effects of lines 54 to 56 and 58 to 60, for the state of the render they close over.\<close>

definition saveTasksEffect :: "state \<Rightarrow> localStorage \<Rightarrow> localStorage" where
  "saveTasksEffect s ls = ls\<lparr>dailyTaskTick_tasks := Some (tasks s)\<rparr>"

definition saveCompletionsEffect :: "state \<Rightarrow> localStorage \<Rightarrow> localStorage" where
  "saveCompletionsEffect s ls = ls\<lparr>dailyTaskTick_completions := Some (completions s)\<rparr>"

text \<open>
  Mounting the component on session date \<open>today\<close>. After the first render the three
  effects run in the order they are declared, the two saving effects with the empty
  lists of the first render. The queued updates give the second render, after which a
  saving effect runs again when its list is a new array: the task list when an entry
  was read, the completion list always.
\<close>

definition mount :: "jsstring \<Rightarrow> localStorage \<Rightarrow> state \<times> localStorage" where
  "mount today ls =
     (let s0 = initialState today;
          (s1, ls1) = loadEffect s0 ls;
          ls2 = saveTasksEffect s0 ls1;
          ls3 = saveCompletionsEffect s0 ls2;
          ls4 = (if dailyTaskTick_tasks ls \<noteq> None then saveTasksEffect s1 ls3 else ls3);
          ls5 = saveCompletionsEffect s1 ls4
      in (s1, ls5))"

subsection \<open>Events of the rendered page (lines 134 to 260)\<close>

text \<open>
  What the user can do to the page: type in the form, submit it, tick a checkbox, click
  an edit or delete icon, type in the inline editor, leave it or press Enter, press
  Escape, click Reset Today. \<open>Submit\<close> carries the two clock readings, \<open>ClickDelete\<close>
  and \<open>ClickReset\<close> the answer to the prompt.
\<close>

datatype event =
    ChangeNewTaskTitle jsstring
  | Submit int jsstring
  | Toggle jsstring
  | ClickEdit jsstring jsstring
  | ChangeEditingTitle jsstring
  | SaveEdit jsstring
  | CancelEdit
  | ClickDelete bool jsstring
  | ClickReset bool

fun handle :: "event \<Rightarrow> state \<Rightarrow> state" where
  "handle (ChangeNewTaskTitle v) s = s\<lparr>newTaskTitle := v\<rparr>"
| "handle (Submit now stamp) s = handleAddTask now stamp s"
| "handle (Toggle tid) s = handleToggleCompletion tid s"
| "handle (ClickEdit tid currentTitle) s = handleEditTask tid currentTitle s"
| "handle (ChangeEditingTitle v) s = s\<lparr>editingTaskTitle := v\<rparr>"
| "handle (SaveEdit tid) s = handleSaveEdit tid s"
| "handle CancelEdit s = handleCancelEdit s"
| "handle (ClickDelete confirm tid) s = handleDeleteTask confirm tid s"
| "handle (ClickReset confirm) s = handleResetTodayCompletions confirm s"

text \<open>
  Which events the page rendered from a state offers. A row is rendered per task, so a
  checkbox, an edit icon and a delete icon exist for the ids of the task list only; the
  inline editor exists in the row whose id is \<open>editingTaskId\<close>; the edit icon is hidden
  in that row; Reset Today is shown when there is a task.
\<close>

definition hasTask :: "jsstring \<Rightarrow> state \<Rightarrow> bool" where
  "hasTask tid s = list_ex (\<lambda>task. id_task task = tid) (tasks s)"

fun rendered :: "event \<Rightarrow> state \<Rightarrow> bool" where
  "rendered (ChangeNewTaskTitle v) s = True"
| "rendered (Submit now stamp) s = True"
| "rendered (Toggle tid) s = hasTask tid s"
| "rendered (ClickEdit tid currentTitle) s =
     (list_ex (\<lambda>task. id_task task = tid \<and> title task = currentTitle) (tasks s) \<and>
      editingTaskId s \<noteq> Some tid)"
| "rendered (ChangeEditingTitle v) s =
     (case editingTaskId s of None \<Rightarrow> False | Some tid \<Rightarrow> hasTask tid s)"
| "rendered (SaveEdit tid) s = (editingTaskId s = Some tid \<and> hasTask tid s)"
| "rendered CancelEdit s =
     (case editingTaskId s of None \<Rightarrow> False | Some tid \<Rightarrow> hasTask tid s)"
| "rendered (ClickDelete confirm tid) s = hasTask tid s"
| "rendered (ClickReset confirm) s = (0 < totalTasksCount s)"

text \<open>
  Whether the handler of an event calls \<open>setTasks\<close>, and whether it calls
  \<open>setCompletions\<close>. Every such call installs a new array (a spread, a \<open>filter\<close> or a
  \<open>map\<close>), so the saving effect that depends on the list runs after the next render; it
  does not run otherwise.
\<close>

fun setsTasks :: "event \<Rightarrow> state \<Rightarrow> bool" where
  "setsTasks (Submit now stamp) s = (trim (newTaskTitle s) \<noteq> [])"
| "setsTasks (SaveEdit tid) s = (trim (editingTaskTitle s) \<noteq> [])"
| "setsTasks (ClickDelete confirm tid) s = confirm"
| "setsTasks e s = False"

fun setsCompletions :: "event \<Rightarrow> state \<Rightarrow> bool" where
  "setsCompletions (Toggle tid) s = True"
| "setsCompletions (ClickDelete confirm tid) s = confirm"
| "setsCompletions (ClickReset confirm) s = confirm"
| "setsCompletions e s = False"

text \<open>
  A session is a sequence of events and reloads of the page. An event runs its handler,
  the page renders again and the saving effects whose list was set write it through. A
  reload mounts the component anew on the store as it is, on the date of that moment.
\<close>

datatype action = Event event | Reload jsstring

fun step :: "action \<Rightarrow> state \<times> localStorage \<Rightarrow> state \<times> localStorage" where
  "step (Event e) (s, ls) =
     (let s' = handle e s;
          ls1 = (if setsTasks e s then saveTasksEffect s' ls else ls);
          ls2 = (if setsCompletions e s then saveCompletionsEffect s' ls1 else ls1)
      in (s', ls2))"
| "step (Reload today) (s, ls) = mount today ls"

fun run :: "action list \<Rightarrow> state \<times> localStorage \<Rightarrow> state \<times> localStorage" where
  "run [] st = st"
| "run (a # as) st = run as (step a st)"

text \<open>Whether every event of a run is one the page offers when it happens.\<close>

fun offered :: "action list \<Rightarrow> state \<times> localStorage \<Rightarrow> bool" where
  "offered [] st = True"
| "offered (Event e # as) st = (rendered e (fst st) \<and> offered as (step (Event e) st))"
| "offered (Reload today # as) st = offered as (step (Reload today) st)"

subsection \<open>Invariants of the data model\<close>

text \<open>At most one completion record for a pair of task id and date.\<close>

definition uniqueCompletions :: "CompletionRecord list \<Rightarrow> bool" where
  "uniqueCompletions cs = distinct (map (\<lambda>c. (taskId c, date c)) cs)"

text \<open>Every completion record carries the id of a task of the list.\<close>

definition noDangling :: "Task list \<Rightarrow> CompletionRecord list \<Rightarrow> bool" where
  "noDangling ts cs = list_all (\<lambda>c. taskId c \<in> set (map id_task ts)) cs"

text \<open>The task ids of the list are pairwise different.\<close>

definition uniqueIds :: "Task list \<Rightarrow> bool" where
  "uniqueIds ts = distinct (map id_task ts)"

text \<open>The lists a load reads from the store: an absent entry reads as no list.\<close>

definition storedTasks :: "localStorage \<Rightarrow> Task list" where
  "storedTasks ls = (case dailyTaskTick_tasks ls of None \<Rightarrow> [] | Some ts \<Rightarrow> ts)"

definition storedCompletions :: "localStorage \<Rightarrow> CompletionRecord list" where
  "storedCompletions ls = (case dailyTaskTick_completions ls of None \<Rightarrow> [] | Some cs \<Rightarrow> cs)"

text \<open>The two list entries of the store hold the lists of the state.\<close>

definition mirrored :: "state \<times> localStorage \<Rightarrow> bool" where
  "mirrored st \<longleftrightarrow>
     dailyTaskTick_tasks (snd st) = Some (tasks (fst st)) \<and>
     dailyTaskTick_completions (snd st) = Some (completions (fst st))"

subsection \<open>An example session\<close>

text \<open>
  On 1 May 2024 the user opens the page on an empty store, types \<open>Workout\<close>, submits
  the form while the clock reads 1700000000000 and ticks the new task.
\<close>

definition day1 :: jsstring where
  "day1 = utf16 ''2024-05-01''"

definition day2 :: jsstring where
  "day2 = utf16 ''2024-05-02''"

definition clock0 :: int where
  "clock0 = 1700000000000"

definition stamp0 :: jsstring where
  "stamp0 = utf16 ''2023-11-14T22:13:20.000Z''"

definition workoutSession :: "action list" where
  "workoutSession =
     [Event (ChangeNewTaskTitle (utf16 ''Workout'')), Event (Submit clock0 stamp0),
      Event (Toggle (toString clock0))]"

definition workout :: Task where
  "workout =
     \<lparr>id_task = toString clock0, title = utf16 ''Workout'', createdAt = stamp0,
      archived = False\<rparr>"

definition workoutDone :: CompletionRecord where
  "workoutDone = \<lparr>taskId = toString clock0, date = day1\<rparr>"

definition exampleState :: state where
  "exampleState =
     \<lparr>tasks = [workout], completions = [workoutDone], newTaskTitle = [],
      editingTaskId = None, editingTaskTitle = [], currentLocalISODate = day1\<rparr>"

definition exampleStore :: localStorage where
  "exampleStore =
     \<lparr>dailyTaskTick_tasks = Some [workout], dailyTaskTick_completions = Some [workoutDone],
      dailyTaskTick_lastCompletionDate = Some day1\<rparr>"

text \<open>
  The session goes on: the user types \<open>Read\<close> in the form, and submits it while the
  clock reads 1700000000000 again.
\<close>

definition readSession :: "action list" where
  "readSession = workoutSession @ [Event (ChangeNewTaskTitle (utf16 ''Read''))]"

definition readDraft :: state where
  "readDraft = exampleState\<lparr>newTaskTitle := utf16 ''Read''\<rparr>"

section \<open>Supporting lemmas\<close>

subsection \<open>Facts about the handlers\<close>

lemma toggle_completions_on:
  "isCompleted tid s \<Longrightarrow> completions (handleToggleCompletion tid s) =
     filter (\<lambda>c. \<not> (taskId c = tid \<and> date c = currentLocalISODate s)) (completions s)"
  by (simp add: handleToggleCompletion_def)

lemma toggle_completions_off:
  "\<not> isCompleted tid s \<Longrightarrow> completions (handleToggleCompletion tid s) =
     completions s @ [\<lparr>taskId = tid, date = currentLocalISODate s\<rparr>]"
  by (simp add: handleToggleCompletion_def)

lemma toggle_date:
  "currentLocalISODate (handleToggleCompletion tid s) = currentLocalISODate s"
  by (simp add: handleToggleCompletion_def)

lemma toggle_tasks: "tasks (handleToggleCompletion tid s) = tasks s"
  by (simp add: handleToggleCompletion_def)

lemma isCompleted_toggle:
  "isCompleted tid (handleToggleCompletion tid s) = (\<not> isCompleted tid s)"
proof (cases "isCompleted tid s")
  case True
  then show ?thesis
    by (simp add: isCompleted_def toggle_completions_on toggle_date list_ex_iff)
next
  case False
  then show ?thesis
    by (simp add: isCompleted_def toggle_completions_off toggle_date list_ex_iff)
qed

lemma saveEdit_ids: "map id_task (tasks (handleSaveEdit tid s)) = map id_task (tasks s)"
  by (simp add: handleSaveEdit_def)

lemma saveEdit_completions: "completions (handleSaveEdit tid s) = completions s"
  by (simp add: handleSaveEdit_def)

lemma hasTask_iff: "hasTask tid s \<longleftrightarrow> tid \<in> id_task ` set (tasks s)"
  by (auto simp add: hasTask_def list_ex_iff)

subsection \<open>Facts about loading\<close>

lemma loadEffect_tasks:
  "tasks (fst (loadEffect s ls)) =
     (case dailyTaskTick_tasks ls of None \<Rightarrow> tasks s | Some ts \<Rightarrow> ts)"
  by (simp add: loadEffect_def Let_def split: option.splits)

lemma loadEffect_completions:
  "completions (fst (loadEffect s ls)) =
     (if dailyTaskTick_lastCompletionDate ls = Some (currentLocalISODate s)
      then storedCompletions ls else [])"
  by (simp add: loadEffect_def storedCompletions_def Let_def split: option.splits)

lemma loadEffect_date:
  "currentLocalISODate (fst (loadEffect s ls)) = currentLocalISODate s"
  by (simp add: loadEffect_def Let_def split: option.splits)

lemma loadEffect_store:
  "dailyTaskTick_tasks (snd (loadEffect s ls)) = dailyTaskTick_tasks ls"
  "dailyTaskTick_lastCompletionDate (snd (loadEffect s ls)) = Some (currentLocalISODate s)"
  "dailyTaskTick_completions (snd (loadEffect s ls)) =
     (if dailyTaskTick_lastCompletionDate ls = Some (currentLocalISODate s)
      then Some (storedCompletions ls) else Some [])"
  by (simp_all add: loadEffect_def storedCompletions_def Let_def split: option.splits)

lemma initialState_date: "currentLocalISODate (initialState today) = today"
  by (simp add: initialState_def)

lemma mount_fst: "fst (mount today ls) = fst (loadEffect (initialState today) ls)"
  by (simp add: mount_def Let_def split: prod.splits)

lemma mount_tasks: "tasks (fst (mount today ls)) = storedTasks ls"
  by (simp add: mount_fst loadEffect_tasks storedTasks_def initialState_def
      split: option.splits)

lemma mount_completions:
  "completions (fst (mount today ls)) =
     (if dailyTaskTick_lastCompletionDate ls = Some today then storedCompletions ls else [])"
  by (simp add: mount_fst loadEffect_completions initialState_date)

lemma mount_date: "currentLocalISODate (fst (mount today ls)) = today"
  by (simp add: mount_fst loadEffect_date initialState_date)

text \<open>After mounting, the store holds the lists of the state and the session date.\<close>

lemma mount_snd:
  "snd (mount today ls) =
     \<lparr>dailyTaskTick_tasks = Some (tasks (fst (mount today ls))),
      dailyTaskTick_completions = Some (completions (fst (mount today ls))),
      dailyTaskTick_lastCompletionDate = Some today\<rparr>"
  by (simp add: mount_def loadEffect_def Let_def saveTasksEffect_def saveCompletionsEffect_def
      initialState_def split: option.splits)

lemma step_Event_fst: "fst (step (Event e) st) = handle e (fst st)"
  by (cases st) (simp add: Let_def)

lemma step_Reload: "step (Reload today) st = mount today (snd st)"
  by (cases st) simp

text \<open>
  A handler that does not call a setter leaves the list as it is, so the store holds
  the lists of the state throughout a session.
\<close>

lemma handle_keeps_tasks: "\<not> setsTasks e s \<Longrightarrow> tasks (handle e s) = tasks s"
  by (cases e)
     (simp_all add: handleAddTask_def handleToggleCompletion_def handleEditTask_def
        handleSaveEdit_def handleCancelEdit_def handleDeleteTask_def
        handleResetTodayCompletions_def)

lemma handle_keeps_completions:
  "\<not> setsCompletions e s \<Longrightarrow> completions (handle e s) = completions s"
  by (cases e)
     (simp_all add: handleAddTask_def Let_def handleEditTask_def handleSaveEdit_def
        handleCancelEdit_def handleDeleteTask_def handleResetTodayCompletions_def)

lemma mirrored_mount: "mirrored (mount today ls)"
  by (simp add: mirrored_def mount_snd)

lemma mirrored_step:
  assumes "mirrored st"
  shows "mirrored (step a st)"
proof (cases a)
  case (Event e)
  obtain s ls where st: "st = (s, ls)"
    by (cases st)
  from assms have "dailyTaskTick_tasks ls = Some (tasks s)"
    and "dailyTaskTick_completions ls = Some (completions s)"
    by (simp_all add: mirrored_def st)
  then show ?thesis
    unfolding Event st
    by (simp add: mirrored_def Let_def saveTasksEffect_def saveCompletionsEffect_def
        handle_keeps_tasks handle_keeps_completions)
next
  case (Reload today)
  show ?thesis
    unfolding Reload by (simp add: step_Reload mirrored_mount)
qed

lemma mirrored_stored:
  "mirrored st \<Longrightarrow> storedTasks (snd st) = tasks (fst st)"
  "mirrored st \<Longrightarrow> storedCompletions (snd st) = completions (fst st)"
  by (simp_all add: mirrored_def storedTasks_def storedCompletions_def)

subsection \<open>The example session\<close>

lemma trim_Workout: "trim (utf16 ''Workout'') = utf16 ''Workout''"
  by (simp add: trim_def utf16_def isWhiteSpace_def)

lemma Workout_not_blank: "utf16 ''Workout'' \<noteq> []"
  by (simp add: utf16_def)

lemma mount_emptyStorage:
  "mount today emptyStorage =
     (initialState today,
      \<lparr>dailyTaskTick_tasks = Some [], dailyTaskTick_completions = Some [],
       dailyTaskTick_lastCompletionDate = Some today\<rparr>)"
  by (simp add: mount_def loadEffect_def emptyStorage_def initialState_def
      saveTasksEffect_def saveCompletionsEffect_def)

lemma workoutSession_offered: "offered workoutSession (mount day1 emptyStorage)"
  by (simp add: workoutSession_def mount_emptyStorage initialState_def handleAddTask_def
      trim_Workout Workout_not_blank hasTask_def saveTasksEffect_def
      saveCompletionsEffect_def)

lemma workoutSession_run:
  "run workoutSession (mount day1 emptyStorage) = (exampleState, exampleStore)"
  by (simp add: workoutSession_def mount_emptyStorage initialState_def handleAddTask_def
      trim_Workout Workout_not_blank handleToggleCompletion_def isCompleted_def
      saveTasksEffect_def saveCompletionsEffect_def exampleState_def exampleStore_def
      workout_def workoutDone_def)

lemma day1_not_day2: "day1 \<noteq> day2"
  by (simp add: day1_def day2_def utf16_def)

section \<open>Properties of the specification\<close>

subsection \<open>Loading\<close>

text \<open>
  C1. Day rollover on load. When the stored last-completion date is the session date and
  a completion list is stored, the completion list in memory is the stored list, and the
  stored list stays as it is. Otherwise the list in memory is empty and an empty list is
  stored. In both cases the session date is stored as the last-completion date. This
  holds of the loading effect run on any state, and of mounting the component.
\<close>

theorem load_day_rollover:
  "(dailyTaskTick_lastCompletionDate ls = Some (currentLocalISODate s) \<and>
    dailyTaskTick_completions ls = Some cs \<longrightarrow>
      completions (fst (loadEffect s ls)) = cs \<and>
      dailyTaskTick_completions (snd (loadEffect s ls)) = Some cs) \<and>
   (\<not> (dailyTaskTick_lastCompletionDate ls = Some (currentLocalISODate s) \<and>
       dailyTaskTick_completions ls \<noteq> None) \<longrightarrow>
      completions (fst (loadEffect s ls)) = [] \<and>
      dailyTaskTick_completions (snd (loadEffect s ls)) = Some []) \<and>
   dailyTaskTick_lastCompletionDate (snd (loadEffect s ls)) = Some (currentLocalISODate s) \<and>
   (dailyTaskTick_lastCompletionDate ls = Some today \<and>
    dailyTaskTick_completions ls = Some cs \<longrightarrow>
      completions (fst (mount today ls)) = cs \<and>
      dailyTaskTick_completions (snd (mount today ls)) = Some cs) \<and>
   (\<not> (dailyTaskTick_lastCompletionDate ls = Some today \<and>
       dailyTaskTick_completions ls \<noteq> None) \<longrightarrow>
      completions (fst (mount today ls)) = [] \<and>
      dailyTaskTick_completions (snd (mount today ls)) = Some []) \<and>
   dailyTaskTick_lastCompletionDate (snd (mount today ls)) = Some today"
proof -
  have present: "dailyTaskTick_completions ls = Some cs \<longrightarrow> storedCompletions ls = cs"
    by (simp add: storedCompletions_def)
  have absent: "dailyTaskTick_completions ls = None \<longrightarrow> storedCompletions ls = []"
    by (simp add: storedCompletions_def)
  show ?thesis
    using present absent
    by (auto simp add: loadEffect_completions loadEffect_store mount_completions mount_snd)
qed

text \<open>
  The store the example session leaves, loaded on the same day and on the next day.
\<close>

theorem load_day_rollover_witness:
  "completions (fst (mount day1 exampleStore)) = [workoutDone] \<and>
   dailyTaskTick_completions (snd (mount day1 exampleStore)) = Some [workoutDone] \<and>
   dailyTaskTick_lastCompletionDate (snd (mount day1 exampleStore)) = Some day1 \<and>
   completions (fst (mount day2 exampleStore)) = [] \<and>
   dailyTaskTick_completions (snd (mount day2 exampleStore)) = Some [] \<and>
   dailyTaskTick_lastCompletionDate (snd (mount day2 exampleStore)) = Some day2"
  using load_day_rollover [where ls = exampleStore and s = "initialState day1"
      and cs = "[workoutDone]" and today = day1]
    load_day_rollover [where ls = exampleStore and s = "initialState day2"
      and cs = "[workoutDone]" and today = day2]
    day1_not_day2
  by (simp add: exampleStore_def initialState_date)

subsection \<open>Toggling\<close>

text \<open>
  C5. For every state and every task id, toggling the completion of the id twice gives
  a state in which the id is completed today exactly when it was in the first state.
  The session date is the ref of the state, which no handler writes.
\<close>

theorem toggle_involution:
  "isCompleted tid (handleToggleCompletion tid (handleToggleCompletion tid s)) =
     isCompleted tid s"
  by (simp add: isCompleted_toggle)

text \<open>
  C10. Whatever the state and the task id, in the task list or not,
  \<open>handleToggleCompletion\<close> changes the completion list only: the task list, the
  editing id and the editing buffer (and the form input and the session date) are as
  before.
\<close>

theorem toggle_frame:
  "tasks (handleToggleCompletion tid s) = tasks s \<and>
   editingTaskId (handleToggleCompletion tid s) = editingTaskId s \<and>
   editingTaskTitle (handleToggleCompletion tid s) = editingTaskTitle s \<and>
   newTaskTitle (handleToggleCompletion tid s) = newTaskTitle s \<and>
   currentLocalISODate (handleToggleCompletion tid s) = currentLocalISODate s"
  by (simp add: handleToggleCompletion_def)

subsection \<open>Blank titles\<close>

text \<open>
  C7. When the form input trims to the empty string, \<open>handleAddTask\<close> returns the
  state it was given, and when the editing buffer trims to the empty string, so does
  \<open>handleSaveEdit\<close>: task list, completion list and editing state are unchanged. The
  handlers return normally; they have no error result.
\<close>

theorem blank_title_ignored:
  "(trim (newTaskTitle s) = [] \<longrightarrow> handleAddTask now stamp s = s) \<and>
   (trim (editingTaskTitle s) = [] \<longrightarrow> handleSaveEdit tid s = s)"
  by (simp add: handleAddTask_def handleSaveEdit_def)

text \<open>Three spaces in the form, a tab and a space in the inline editor of the example task.\<close>

theorem blank_title_ignored_witness:
  "trim (utf16 ''   '') = [] \<and>
   handleAddTask clock0 stamp0 (exampleState\<lparr>newTaskTitle := utf16 ''   ''\<rparr>) =
     exampleState\<lparr>newTaskTitle := utf16 ''   ''\<rparr> \<and>
   trim [0x0009, 0x0020] = [] \<and>
   handleSaveEdit (toString clock0)
       (exampleState\<lparr>editingTaskId := Some (toString clock0),
          editingTaskTitle := [0x0009, 0x0020]\<rparr>) =
     exampleState\<lparr>editingTaskId := Some (toString clock0),
       editingTaskTitle := [0x0009, 0x0020]\<rparr>"
proof -
  have form: "trim (utf16 ''   '') = []"
    by (simp add: trim_def utf16_def isWhiteSpace_def)
  have editor: "trim [0x0009, 0x0020] = []"
    by (simp add: trim_def isWhiteSpace_def)
  show ?thesis
    using form editor
      blank_title_ignored [where s = "exampleState\<lparr>newTaskTitle := utf16 ''   ''\<rparr>"
        and now = clock0 and stamp = stamp0]
      blank_title_ignored [where tid = "toString clock0"
        and s = "exampleState\<lparr>editingTaskId := Some (toString clock0),
                   editingTaskTitle := [0x0009, 0x0020]\<rparr>"]
    by simp
qed

subsection \<open>Deleting\<close>

text \<open>
  C8. \<open>handleDeleteTask\<close> is gated by the confirmation. When the answer is no, the state
  is unchanged. When the answer is yes, no task with the given id is left in the task
  list and no completion record with that task id is left in the completion list, and
  the tasks and records of other ids are all kept.
\<close>

theorem delete_confirmation_gated:
  "handleDeleteTask False tid s = s \<and>
   \<not> hasTask tid (handleDeleteTask True tid s) \<and>
   \<not> list_ex (\<lambda>c. taskId c = tid) (completions (handleDeleteTask True tid s)) \<and>
   set (tasks (handleDeleteTask True tid s)) = {task \<in> set (tasks s). id_task task \<noteq> tid} \<and>
   set (completions (handleDeleteTask True tid s)) =
     {c \<in> set (completions s). taskId c \<noteq> tid}"
  by (auto simp add: handleDeleteTask_def hasTask_def list_ex_iff)

text \<open>Deleting the task of the example session, declined and confirmed.\<close>

theorem delete_confirmation_gated_witness:
  "handleDeleteTask False (toString clock0) exampleState = exampleState \<and>
   tasks (handleDeleteTask True (toString clock0) exampleState) = [] \<and>
   completions (handleDeleteTask True (toString clock0) exampleState) = []"
  using delete_confirmation_gated [of "toString clock0" exampleState]
  by (simp add: handleDeleteTask_def exampleState_def workout_def workoutDone_def)

subsection \<open>Editing\<close>

text \<open>
  C9. When the editing buffer does not trim to the empty string, \<open>handleSaveEdit\<close>
  leaves the task list at its length and order: at every position the task is the old
  task, with the trimmed buffer as title when its id is the edited id and unchanged
  otherwise. So ids, creation stamps and archived flags are as before. The completion
  list and the session date are unchanged, hence so is every task's completed-today
  status.
\<close>

theorem save_edit_frame:
  assumes "trim (editingTaskTitle s) \<noteq> []"
  shows "length (tasks (handleSaveEdit tid s)) = length (tasks s) \<and>
     (\<forall>i < length (tasks s).
        tasks (handleSaveEdit tid s) ! i =
          (if id_task (tasks s ! i) = tid
           then (tasks s ! i)\<lparr>title := trim (editingTaskTitle s)\<rparr>
           else tasks s ! i)) \<and>
     map id_task (tasks (handleSaveEdit tid s)) = map id_task (tasks s) \<and>
     map createdAt (tasks (handleSaveEdit tid s)) = map createdAt (tasks s) \<and>
     map archived (tasks (handleSaveEdit tid s)) = map archived (tasks s) \<and>
     completions (handleSaveEdit tid s) = completions s \<and>
     currentLocalISODate (handleSaveEdit tid s) = currentLocalISODate s \<and>
     isCompleted tid' (handleSaveEdit tid s) = isCompleted tid' s"
  using assms by (simp add: handleSaveEdit_def isCompleted_def)

text \<open>
  The task of the example session, edited to \<open>Workout AM\<close> with a space typed after it.
\<close>

theorem save_edit_frame_witness:
  "trim (utf16 ''Workout AM '') = utf16 ''Workout AM'' \<and>
   tasks (handleSaveEdit (toString clock0)
       (exampleState\<lparr>editingTaskId := Some (toString clock0),
          editingTaskTitle := utf16 ''Workout AM ''\<rparr>)) =
     [workout\<lparr>title := utf16 ''Workout AM''\<rparr>] \<and>
   completions (handleSaveEdit (toString clock0)
       (exampleState\<lparr>editingTaskId := Some (toString clock0),
          editingTaskTitle := utf16 ''Workout AM ''\<rparr>)) = [workoutDone] \<and>
   isCompleted (toString clock0) (handleSaveEdit (toString clock0)
       (exampleState\<lparr>editingTaskId := Some (toString clock0),
          editingTaskTitle := utf16 ''Workout AM ''\<rparr>))"
proof -
  have buffer: "trim (utf16 ''Workout AM '') = utf16 ''Workout AM''"
    by (simp add: trim_def utf16_def isWhiteSpace_def)
  have filled: "utf16 ''Workout AM'' \<noteq> []"
    by (simp add: utf16_def)
  have before: "isCompleted (toString clock0)
      (exampleState\<lparr>editingTaskId := Some (toString clock0),
         editingTaskTitle := utf16 ''Workout AM ''\<rparr>)"
    by (simp add: isCompleted_def exampleState_def workoutDone_def)
  show ?thesis
    using buffer filled before
      save_edit_frame [where tid = "toString clock0" and tid' = "toString clock0"
        and s = "exampleState\<lparr>editingTaskId := Some (toString clock0),
                   editingTaskTitle := utf16 ''Workout AM ''\<rparr>"]
    by (simp add: handleSaveEdit_def exampleState_def workout_def)
qed

subsection \<open>One completion record for a task and a date\<close>

lemma unique_Nil: "uniqueCompletions []"
  by (simp add: uniqueCompletions_def)

lemma unique_filter: "uniqueCompletions cs \<Longrightarrow> uniqueCompletions (filter P cs)"
  by (simp add: uniqueCompletions_def distinct_map_filter)

lemma unique_toggle:
  assumes "uniqueCompletions (completions s)"
  shows "uniqueCompletions (completions (handleToggleCompletion tid s))"
proof (cases "isCompleted tid s")
  case True
  with assms show ?thesis
    by (simp add: toggle_completions_on unique_filter)
next
  case False
  then have "(tid, currentLocalISODate s) \<notin> set (map (\<lambda>c. (taskId c, date c)) (completions s))"
    by (auto simp add: isCompleted_def list_ex_iff)
  with assms False show ?thesis
    by (simp add: toggle_completions_off uniqueCompletions_def)
qed

lemma unique_handle:
  "uniqueCompletions (completions s) \<Longrightarrow> uniqueCompletions (completions (handle e s))"
  by (cases e)
     (simp_all add: unique_toggle unique_filter handleAddTask_def Let_def handleEditTask_def
        handleSaveEdit_def handleCancelEdit_def handleDeleteTask_def
        handleResetTodayCompletions_def)

lemma unique_mount:
  "uniqueCompletions (storedCompletions ls) \<Longrightarrow>
   uniqueCompletions (completions (fst (mount today ls)))"
  by (simp add: mount_completions unique_Nil)

lemma unique_step:
  assumes "uniqueCompletions (completions (fst st))" and "mirrored st"
  shows "uniqueCompletions (completions (fst (step a st)))"
proof (cases a)
  case (Event e)
  from assms(1) show ?thesis
    unfolding Event by (simp add: step_Event_fst unique_handle)
next
  case (Reload today)
  from assms show ?thesis
    unfolding Reload by (simp add: step_Reload unique_mount mirrored_stored)
qed

lemma unique_run:
  "uniqueCompletions (completions (fst st)) \<Longrightarrow> mirrored st \<Longrightarrow>
   uniqueCompletions (completions (fst (run acts st)))"
  by (induction acts arbitrary: st) (simp_all add: unique_step mirrored_step)

text \<open>
  C2. The completion list holds at most one record for a pair of task id and date. This
  is so in every state of a session (any events, any reloads on any dates) that starts
  by mounting the component on a store whose completion list has the property, an empty
  store among them. Each operation keeps the property: toggling, adding, deleting,
  saving an edit, resetting today, and the loading effect, which reads the stored list
  or takes the empty one.
\<close>

theorem completions_unique:
  "(uniqueCompletions (storedCompletions ls) \<longrightarrow>
      uniqueCompletions (completions (fst (run acts (mount today ls))))) \<and>
   (uniqueCompletions (completions s) \<longrightarrow>
      uniqueCompletions (completions (handleToggleCompletion tid s)) \<and>
      uniqueCompletions (completions (handleAddTask now stamp s)) \<and>
      uniqueCompletions (completions (handleDeleteTask confirm tid s)) \<and>
      uniqueCompletions (completions (handleSaveEdit tid s)) \<and>
      uniqueCompletions (completions (handleResetTodayCompletions confirm s))) \<and>
   (uniqueCompletions (storedCompletions ls) \<longrightarrow>
      uniqueCompletions (completions (fst (loadEffect s ls))))"
proof (intro conjI impI)
  assume "uniqueCompletions (storedCompletions ls)"
  then show "uniqueCompletions (completions (fst (run acts (mount today ls))))"
    by (simp add: unique_run unique_mount mirrored_mount)
next
  assume u: "uniqueCompletions (completions s)"
  show "uniqueCompletions (completions (handleToggleCompletion tid s))"
    using u by (rule unique_toggle)
  show "uniqueCompletions (completions (handleAddTask now stamp s))"
    using u unique_handle [of s "Submit now stamp"] by simp
  show "uniqueCompletions (completions (handleDeleteTask confirm tid s))"
    using u unique_handle [of s "ClickDelete confirm tid"] by simp
  show "uniqueCompletions (completions (handleSaveEdit tid s))"
    using u unique_handle [of s "SaveEdit tid"] by simp
  show "uniqueCompletions (completions (handleResetTodayCompletions confirm s))"
    using u unique_handle [of s "ClickReset confirm"] by simp
next
  assume "uniqueCompletions (storedCompletions ls)"
  then show "uniqueCompletions (completions (fst (loadEffect s ls)))"
    by (simp add: loadEffect_completions unique_Nil)
qed

text \<open>
  The example session from the empty store, then the task ticked off and on again, and
  the store it leaves loaded on the same day.
\<close>

theorem completions_unique_witness:
  "uniqueCompletions (storedCompletions emptyStorage) \<and>
   uniqueCompletions (completions (fst (run workoutSession (mount day1 emptyStorage)))) \<and>
   uniqueCompletions (completions exampleState) \<and>
   completions (handleToggleCompletion (toString clock0) exampleState) = [] \<and>
   completions (handleToggleCompletion (toString clock0)
      (handleToggleCompletion (toString clock0) exampleState)) = [workoutDone] \<and>
   uniqueCompletions (storedCompletions exampleStore) \<and>
   completions (fst (loadEffect (initialState day1) exampleStore)) = [workoutDone]"
proof -
  have empty: "uniqueCompletions (storedCompletions emptyStorage)"
    by (simp add: storedCompletions_def emptyStorage_def uniqueCompletions_def)
  have one: "uniqueCompletions [workoutDone]"
    by (simp add: uniqueCompletions_def)
  have off: "completions (handleToggleCompletion (toString clock0) exampleState) = []"
    by (simp add: handleToggleCompletion_def isCompleted_def exampleState_def workoutDone_def)
  have on: "completions (handleToggleCompletion (toString clock0)
      (handleToggleCompletion (toString clock0) exampleState)) = [workoutDone]"
    by (simp add: handleToggleCompletion_def isCompleted_def exampleState_def workoutDone_def)
  have loaded: "completions (fst (loadEffect (initialState day1) exampleStore)) = [workoutDone]"
    by (simp add: loadEffect_completions initialState_date storedCompletions_def
        exampleStore_def)
  show ?thesis
    using empty one off on loaded
      completions_unique [where ls = emptyStorage and acts = workoutSession and today = day1
        and s = exampleState and tid = "toString clock0"]
      completions_unique [where ls = exampleStore and s = "initialState day1"]
    by (simp add: exampleState_def exampleStore_def storedCompletions_def)
qed

subsection \<open>Completion records and the tasks they name\<close>

lemma noDangling_iff:
  "noDangling ts cs \<longleftrightarrow> (\<forall>c \<in> set cs. taskId c \<in> id_task ` set ts)"
  by (simp add: noDangling_def list_all_iff)

lemma noDangling_ids:
  "map id_task ts' = map id_task ts \<Longrightarrow> noDangling ts' cs = noDangling ts cs"
  by (simp only: noDangling_def)

lemma noDangling_toggle:
  assumes "noDangling (tasks s) (completions s)" and "hasTask tid s"
  shows "noDangling (tasks (handleToggleCompletion tid s))
           (completions (handleToggleCompletion tid s))"
proof (cases "isCompleted tid s")
  case True
  with assms(1) show ?thesis
    by (simp add: toggle_completions_on toggle_tasks noDangling_iff)
next
  case False
  with assms show ?thesis
    by (simp add: toggle_completions_off toggle_tasks noDangling_iff hasTask_iff)
qed

lemma noDangling_add:
  "noDangling (tasks s) (completions s) \<Longrightarrow>
   noDangling (tasks (handleAddTask now stamp s)) (completions (handleAddTask now stamp s))"
  by (auto simp add: handleAddTask_def Let_def noDangling_iff)

lemma noDangling_delete:
  "noDangling (tasks s) (completions s) \<Longrightarrow>
   noDangling (tasks (handleDeleteTask confirm tid s))
     (completions (handleDeleteTask confirm tid s))"
  by (fastforce simp add: handleDeleteTask_def noDangling_iff)

lemma noDangling_saveEdit:
  "noDangling (tasks s) (completions s) \<Longrightarrow>
   noDangling (tasks (handleSaveEdit tid s)) (completions (handleSaveEdit tid s))"
  using noDangling_ids [OF saveEdit_ids, of tid s "completions s"]
  by (simp add: saveEdit_completions)

lemma noDangling_reset:
  "noDangling (tasks s) (completions s) \<Longrightarrow>
   noDangling (tasks (handleResetTodayCompletions confirm s))
     (completions (handleResetTodayCompletions confirm s))"
  by (auto simp add: handleResetTodayCompletions_def noDangling_iff)

lemma noDangling_handle:
  assumes "noDangling (tasks s) (completions s)" and "rendered e s"
  shows "noDangling (tasks (handle e s)) (completions (handle e s))"
  using assms
  by (cases e)
     (simp_all add: noDangling_toggle noDangling_add noDangling_delete noDangling_saveEdit
        noDangling_reset handleEditTask_def handleCancelEdit_def)

lemma noDangling_mount:
  "noDangling (storedTasks ls) (storedCompletions ls) \<Longrightarrow>
   noDangling (tasks (fst (mount today ls))) (completions (fst (mount today ls)))"
  by (simp add: mount_tasks mount_completions noDangling_def)

lemma noDangling_run:
  "noDangling (tasks (fst st)) (completions (fst st)) \<Longrightarrow> mirrored st \<Longrightarrow>
   offered acts st \<Longrightarrow>
   noDangling (tasks (fst (run acts st))) (completions (fst (run acts st)))"
proof (induction acts arbitrary: st)
  case Nil
  then show ?case by simp
next
  case (Cons a acts)
  have kept: "mirrored (step a st)"
    using Cons.prems(2) by (rule mirrored_step)
  show ?case
  proof (cases a)
    case (Event e)
    with Cons.prems have "rendered e (fst st)" and rest: "offered acts (step (Event e) st)"
      by simp_all
    with Cons.prems(1)
    have "noDangling (tasks (fst (step (Event e) st))) (completions (fst (step (Event e) st)))"
      by (simp add: step_Event_fst noDangling_handle)
    with rest kept Event show ?thesis
      by (simp add: Cons.IH)
  next
    case (Reload today)
    with Cons.prems have rest: "offered acts (step (Reload today) st)"
      by simp
    from Cons.prems(1,2)
    have "noDangling (tasks (fst (step (Reload today) st)))
            (completions (fst (step (Reload today) st)))"
      by (simp add: step_Reload noDangling_mount mirrored_stored)
    with rest kept Reload show ?thesis
      by (simp add: Cons.IH)
  qed
qed

lemma count_listed:
  assumes "noDangling (tasks s) (completions s)"
  shows "completedTodayCount s =
     length (filter (\<lambda>c. date c = currentLocalISODate s \<and> hasTask (taskId c) s)
       (completions s))"
proof -
  have "filter (\<lambda>c. date c = currentLocalISODate s) (completions s) =
        filter (\<lambda>c. date c = currentLocalISODate s \<and> hasTask (taskId c) s) (completions s)"
    using assms by (intro filter_cong) (auto simp add: noDangling_iff hasTask_iff)
  then show ?thesis
    by (simp add: completedTodayCount_def)
qed

text \<open>
  The handler of the checkbox does not look at the task list; it is the page that calls
  it with the ids of the list only (line 189). This is why the events below are the
  offered ones: on a page without tasks there is no checkbox, and the handler applied to
  an id of no task would add a record for it.
\<close>

lemma toggle_needs_listed_id:
  "\<not> rendered (Toggle (utf16 ''ghost'')) (initialState day1) \<and>
   \<not> noDangling (tasks (handleToggleCompletion (utf16 ''ghost'') (initialState day1)))
       (completions (handleToggleCompletion (utf16 ''ghost'') (initialState day1)))"
  by (simp add: noDangling_def handleToggleCompletion_def isCompleted_def initialState_def
      hasTask_def)

text \<open>
  C3. In every state a session reaches from a first visit (the empty store) through
  reloads and events the page offers, every completion record carries the id of a task
  of the list, so the completed-today count counts records of listed tasks only. A
  confirmed delete leaves no record with the deleted id. No operation brings in a record
  of a task that is not in the list: every event the page offers keeps the property;
  adding, deleting, saving an edit and resetting today keep it whatever their arguments;
  the load keeps it of the stored lists.
\<close>

theorem completions_reference_tasks:
  "(offered acts (mount today emptyStorage) \<longrightarrow>
      noDangling (tasks (fst (run acts (mount today emptyStorage))))
        (completions (fst (run acts (mount today emptyStorage)))) \<and>
      completedTodayCount (fst (run acts (mount today emptyStorage))) =
        length (filter
          (\<lambda>c. date c = currentLocalISODate (fst (run acts (mount today emptyStorage))) \<and>
               hasTask (taskId c) (fst (run acts (mount today emptyStorage))))
          (completions (fst (run acts (mount today emptyStorage)))))) \<and>
   \<not> list_ex (\<lambda>c. taskId c = tid) (completions (handleDeleteTask True tid s)) \<and>
   (noDangling (tasks s) (completions s) \<and> rendered e s \<longrightarrow>
      noDangling (tasks (handle e s)) (completions (handle e s))) \<and>
   (noDangling (tasks s) (completions s) \<longrightarrow>
      noDangling (tasks (handleAddTask now stamp s)) (completions (handleAddTask now stamp s)) \<and>
      noDangling (tasks (handleDeleteTask confirm tid s))
        (completions (handleDeleteTask confirm tid s)) \<and>
      noDangling (tasks (handleSaveEdit tid s)) (completions (handleSaveEdit tid s)) \<and>
      noDangling (tasks (handleResetTodayCompletions confirm s))
        (completions (handleResetTodayCompletions confirm s))) \<and>
   (noDangling (storedTasks ls) (storedCompletions ls) \<longrightarrow>
      noDangling (tasks (fst (mount today ls))) (completions (fst (mount today ls))))"
proof (intro conjI impI)
  have first: "noDangling (storedTasks emptyStorage) (storedCompletions emptyStorage)"
    by (simp add: storedCompletions_def emptyStorage_def noDangling_def)
  assume "offered acts (mount today emptyStorage)"
  with first
  show refs: "noDangling (tasks (fst (run acts (mount today emptyStorage))))
        (completions (fst (run acts (mount today emptyStorage))))"
    by (simp add: noDangling_run noDangling_mount mirrored_mount)
  then show "completedTodayCount (fst (run acts (mount today emptyStorage))) =
        length (filter
          (\<lambda>c. date c = currentLocalISODate (fst (run acts (mount today emptyStorage))) \<and>
               hasTask (taskId c) (fst (run acts (mount today emptyStorage))))
          (completions (fst (run acts (mount today emptyStorage)))))"
    by (rule count_listed)
next
  show "\<not> list_ex (\<lambda>c. taskId c = tid) (completions (handleDeleteTask True tid s))"
    by (simp add: handleDeleteTask_def list_ex_iff)
next
  assume "noDangling (tasks s) (completions s) \<and> rendered e s"
  then show "noDangling (tasks (handle e s)) (completions (handle e s))"
    by (simp add: noDangling_handle)
qed (simp_all add: noDangling_add noDangling_delete noDangling_saveEdit noDangling_reset
        noDangling_mount)

text \<open>
  The example session from the empty store, and its task ticked off by its checkbox and
  deleted.
\<close>

theorem completions_reference_tasks_witness:
  "offered workoutSession (mount day1 emptyStorage) \<and>
   noDangling (tasks (fst (run workoutSession (mount day1 emptyStorage))))
     (completions (fst (run workoutSession (mount day1 emptyStorage)))) \<and>
   completedTodayCount (fst (run workoutSession (mount day1 emptyStorage))) = 1 \<and>
   noDangling (tasks exampleState) (completions exampleState) \<and>
   rendered (Toggle (toString clock0)) exampleState \<and>
   noDangling (tasks (handle (Toggle (toString clock0)) exampleState))
     (completions (handle (Toggle (toString clock0)) exampleState)) \<and>
   completions (handleDeleteTask True (toString clock0) exampleState) = [] \<and>
   noDangling (storedTasks exampleStore) (storedCompletions exampleStore) \<and>
   noDangling (tasks (fst (mount day2 exampleStore))) (completions (fst (mount day2 exampleStore)))"
proof -
  have refs: "noDangling (tasks exampleState) (completions exampleState)"
    by (simp add: noDangling_def exampleState_def workout_def workoutDone_def)
  have stored: "noDangling (storedTasks exampleStore) (storedCompletions exampleStore)"
    by (simp add: noDangling_def storedTasks_def storedCompletions_def exampleStore_def
        workout_def workoutDone_def)
  have listed: "rendered (Toggle (toString clock0)) exampleState"
    by (simp add: hasTask_def exampleState_def workout_def)
  have deleted: "completions (handleDeleteTask True (toString clock0) exampleState) = []"
    by (simp add: handleDeleteTask_def exampleState_def workoutDone_def)
  have counted: "completedTodayCount exampleState = 1"
    by (simp add: completedTodayCount_def exampleState_def workoutDone_def)
  show ?thesis
    using refs stored listed deleted counted workoutSession_offered
      completions_reference_tasks [where acts = workoutSession and today = day1
        and s = exampleState and tid = "toString clock0" and e = "Toggle (toString clock0)"]
      completions_reference_tasks [where ls = exampleStore and today = day2]
    by (simp add: workoutSession_run)
qed

subsection \<open>Task ids\<close>

lemma run_append: "run (as @ bs) st = run bs (run as st)"
  by (induction as arbitrary: st) simp_all

lemma offered_append: "offered (as @ bs) st \<longleftrightarrow> offered as st \<and> offered bs (run as st)"
proof (induction as arbitrary: st)
  case Nil
  show ?case by simp
next
  case (Cons a as)
  then show ?case by (cases a) simp_all
qed

lemma readSession_run:
  "offered (readSession @ [Event (Submit clock0 stamp0)]) (mount day1 emptyStorage) \<and>
   fst (run readSession (mount day1 emptyStorage)) = readDraft"
  by (simp add: readSession_def offered_append run_append workoutSession_offered
      workoutSession_run readDraft_def Let_def)

lemma Read_not_blank: "trim (utf16 ''Read'') = utf16 ''Read'' \<and> utf16 ''Read'' \<noteq> []"
  by (simp add: trim_def utf16_def isWhiteSpace_def)

text \<open>
  What \<open>handleAddTask\<close> does with a title that is not blank: one more task, appended
  after the tasks there were, with the trimmed title and \<open>archived\<close> false; the form is
  cleared and the completion list is as before. The new task is not completed today when
  no record for its id and the session date was there before, as is the case when no
  task had the id and every record named a task.
\<close>

lemma add_task_effect:
  assumes "trim (newTaskTitle s) \<noteq> []"
  shows "totalTasksCount (handleAddTask now stamp s) = totalTasksCount s + 1"
    and "butlast (tasks (handleAddTask now stamp s)) = tasks s"
    and "last (tasks (handleAddTask now stamp s)) =
           \<lparr>id_task = toString now, title = trim (newTaskTitle s), createdAt = stamp,
            archived = False\<rparr>"
    and "completions (handleAddTask now stamp s) = completions s"
    and "isCompleted tid (handleAddTask now stamp s) = isCompleted tid s"
    and "\<not> hasTask (toString now) s \<Longrightarrow> noDangling (tasks s) (completions s) \<Longrightarrow>
           \<not> isCompleted (toString now) (handleAddTask now stamp s)"
proof -
  assume fresh: "\<not> hasTask (toString now) s"
    and refs: "noDangling (tasks s) (completions s)"
  have "taskId c \<noteq> toString now" if "c \<in> set (completions s)" for c
  proof
    assume same: "taskId c = toString now"
    from refs that have "taskId c \<in> id_task ` set (tasks s)"
      by (simp add: noDangling_iff)
    with same fresh show False
      by (simp add: hasTask_iff)
  qed
  with assms show "\<not> isCompleted (toString now) (handleAddTask now stamp s)"
    by (auto simp add: handleAddTask_def Let_def isCompleted_def list_ex_iff)
qed (use assms in \<open>simp_all add: handleAddTask_def Let_def totalTasksCount_def isCompleted_def\<close>)

text \<open>
  C4. The claim is that the id of a new task differs from the id of every task of the
  list. Line 67 takes the id from the clock alone. In the state the example session
  reaches, whose one task has the id of clock reading 1700000000000, a second submit at
  the same clock reading appends a task with that id: the ids were pairwise different
  before and are not afterwards.
\<close>

theorem add_task_id_collision:
  "fst (run readSession (mount day1 emptyStorage)) = readDraft \<and>
   uniqueIds (tasks readDraft) \<and>
   trim (newTaskTitle readDraft) = utf16 ''Read'' \<and>
   hasTask (id_task (last (tasks (handleAddTask clock0 stamp0 readDraft)))) readDraft \<and>
   \<not> uniqueIds (tasks (handleAddTask clock0 stamp0 readDraft))"
  using readSession_run Read_not_blank
  by (simp add: readDraft_def exampleState_def workout_def uniqueIds_def hasTask_def
      handleAddTask_def)

text \<open>
  C6. The claim is that a task added with a title that is not blank is not completed
  today. In the same state, where the one task is ticked, the task added at the same
  clock reading has its id, so the record of the ticked task counts for the new task
  too: one task more, title \<open>Read\<close>, \<open>archived\<close> false, and completed today.
\<close>

theorem add_task_completed_on_collision:
  "fst (run readSession (mount day1 emptyStorage)) = readDraft \<and>
   trim (newTaskTitle readDraft) = utf16 ''Read'' \<and>
   totalTasksCount (handleAddTask clock0 stamp0 readDraft) = totalTasksCount readDraft + 1 \<and>
   last (tasks (handleAddTask clock0 stamp0 readDraft)) =
     \<lparr>id_task = toString clock0, title = utf16 ''Read'', createdAt = stamp0,
      archived = False\<rparr> \<and>
   isCompleted (id_task (last (tasks (handleAddTask clock0 stamp0 readDraft))))
     (handleAddTask clock0 stamp0 readDraft)"
  using readSession_run Read_not_blank
  by (simp add: readDraft_def exampleState_def workout_def workoutDone_def totalTasksCount_def
      isCompleted_def handleAddTask_def)

end
